theory Spec2Isabelle
  imports Main
begin

section \<open>The text column of the CDK table (\<^verbatim>\<open>text-column.ts\<close>)\<close>

text \<open>
  The component \<^verbatim>\<open>CdkTextColumn\<close> declares one table column by name. Its
  \<^verbatim>\<open>ngOnInit\<close> hook defaults the header text and the data accessor and registers the
  owned column definition with the enclosing table; \<^verbatim>\<open>ngOnDestroy\<close> deregisters it.
  The hooks mutate the component and the table and may throw; here each hook takes the
  component and returns what was thrown (if anything) together with the component as the
  hook left it, so that the fields written before a \<^verbatim>\<open>throw\<close> stay visible.
\<close>

subsection \<open>JavaScript values\<close>

text \<open>
  A field of declared type \<^verbatim>\<open>X\<close> that nothing initialises holds \<^verbatim>\<open>undefined\<close>
  at run time, and a template binding can deliver \<^verbatim>\<open>null\<close>; the inputs of the
  component therefore range over \<open>'a js\<close>.
\<close>

datatype 'a js = JsUndefined | JsNull | Defined 'a

text \<open>Truthiness as \<^verbatim>\<open>!x\<close> tests it, for a slot whose defined values are objects or functions.\<close>

fun falsy :: "'a js \<Rightarrow> bool" where
  "falsy JsUndefined = True"
| "falsy JsNull = True"
| "falsy (Defined _) = False"

text \<open>
  The values a row property can hold. Numbers are kept to the integers, and strings to
  7-bit text, where one \<open>char\<close> is one UTF-16 code unit.
\<close>

datatype jsval = JUndefined | JNull | JBool bool | JNum int | JStr string

text \<open>A row \<^verbatim>\<open>T\<close> is an object, read through its own properties.\<close>

type_synonym row = "string \<rightharpoonup> jsval"

text \<open>The property key that \<^verbatim>\<open>obj[name]\<close> uses: \<^verbatim>\<open>ToPropertyKey\<close> of the name.\<close>

fun property_key :: "string js \<Rightarrow> string" where
  "property_key JsUndefined = ''undefined''"
| "property_key JsNull = ''null''"
| "property_key (Defined s) = s"

text \<open>\<^verbatim>\<open>(data as any)[name]\<close>: reading a property that is absent gives \<^verbatim>\<open>undefined\<close>.\<close>

definition get_property :: "row \<Rightarrow> string js \<Rightarrow> jsval" where
  "get_property data name =
     (case data (property_key name) of None \<Rightarrow> JUndefined | Some v \<Rightarrow> v)"

text \<open>\<^verbatim>\<open>String.prototype.toUpperCase\<close> on 7-bit text: the letters a to z lose bit 5.\<close>

definition upper_char :: "char \<Rightarrow> char" where
  "upper_char c =
     (let n = (of_char c :: nat) in if 97 \<le> n \<and> n \<le> 122 then char_of (n - 32) else c)"

definition toUpperCase :: "string \<Rightarrow> string" where
  "toUpperCase s = map upper_char s"

text \<open>\<^verbatim>\<open>s.slice(n)\<close> for \<open>n \<ge> 0\<close>.\<close>

definition slice :: "string \<Rightarrow> nat \<Rightarrow> string" where
  "slice s n = drop n s"

subsection \<open>Errors\<close>

datatype error = MissingParentTableError | TypeError

text \<open>
  Modelled from the spec: \<^verbatim>\<open>getTableTextColumnMissingParentTableError\<close> lives in
  \<^verbatim>\<open>table-errors.ts\<close>; it builds the named error for a text column that has no
  enclosing table.
\<close>

definition getTableTextColumnMissingParentTableError :: error where
  "getTableTextColumnMissingParentTableError = MissingParentTableError"

subsection \<open>Column definitions and the host table\<close>

text \<open>The template markers are opaque references; a number stands for the identity.\<close>

datatype CdkCellDef = CellDef nat
datatype CdkHeaderCellDef = HeaderCellDef nat

text \<open>
  Modelled from the spec: \<^verbatim>\<open>CdkColumnDef\<close> lives in \<^verbatim>\<open>cell.ts\<close>. A column
  definition binds a column name to a header-cell template and a cell template; the
  fields are plain, so an assignment stores the value assigned. A definition is an
  object: \<open>def_ref\<close> is its reference, which no assignment changes and which tells it
  from every other definition, also from one of the same name.
\<close>

record CdkColumnDef =
  def_ref :: nat
  def_name :: "string js"
  def_cell :: "CdkCellDef js"
  def_headerCell :: "CdkHeaderCellDef js"

text \<open>
  Modelled from the spec: \<^verbatim>\<open>CdkTable\<close> lives in \<^verbatim>\<open>table.ts\<close>. The table keeps
  the set of the definitions registered with it, in insertion order; rendering looks
  a column up by its name, which registering and deregistering do not depend on. The
  table holds a registration of each definition, not the ownership; an entry shows the
  definition as it was when it was added.
\<close>

record CdkTable =
  registry :: "CdkColumnDef list"

text \<open>
  Modelled from the spec: \<^verbatim>\<open>addColumnDef(def)\<close> inserts \<open>def\<close>. A definition that
  is not registered yet goes to the end, whatever the names of the entries: a second
  definition of a name that is taken does not overwrite the first, both are kept. Adding
  a definition that is registered already changes nothing, as for a set.
\<close>

definition insert_def :: "CdkColumnDef \<Rightarrow> CdkColumnDef list \<Rightarrow> CdkColumnDef list" where
  "insert_def d xs = (if def_ref d \<in> set (map def_ref xs) then xs else xs @ [d])"

definition addColumnDef :: "CdkTable \<Rightarrow> CdkColumnDef \<Rightarrow> CdkTable" where
  "addColumnDef t d = t\<lparr>registry := insert_def d (registry t)\<rparr>"

text \<open>
  Modelled from the spec: \<^verbatim>\<open>removeColumnDef(def)\<close> removes the entry matching
  \<open>def\<close>; the match is by identity, so the entry of another definition stays, also
  under the same name.
\<close>

definition removeColumnDef :: "CdkTable \<Rightarrow> CdkColumnDef \<Rightarrow> CdkTable" where
  "removeColumnDef t d = t\<lparr>registry := filter (\<lambda>x. def_ref x \<noteq> def_ref d) (registry t)\<rparr>"

subsection \<open>Options\<close>

text \<open>
  \<^verbatim>\<open>TextColumnOptions\<close>: both members are optional, and the code only tests them for
  truthiness, so \<open>None\<close> is a member that is missing. The transform receives
  \<^verbatim>\<open>this.name\<close> as it is at run time; the accessor receives the row and the name.
  Both are the caller's functions, given here by the value they return: a call in which
  the caller's function throws is not represented, and what is stated below of a
  configured transform is stated of the calls that return.
\<close>

type_synonym accessor = "row \<Rightarrow> string js \<Rightarrow> jsval"

record TextColumnOptions =
  defaultHeaderTextTransform :: "(string js \<Rightarrow> string) option"
  defaultDataAccessor :: "accessor option"

text \<open>The object literal \<^verbatim>\<open>{}\<close>.\<close>

definition empty_options :: TextColumnOptions where
  "empty_options = \<lparr>defaultHeaderTextTransform = None, defaultDataAccessor = None\<rparr>"

subsection \<open>The component\<close>

datatype justification = Start | End

text \<open>
  The fields of \<^verbatim>\<open>CdkTextColumn\<close>; \<open>priv_name\<close>, \<open>priv_table\<close> and \<open>priv_options\<close>
  are \<^verbatim>\<open>_name\<close>, \<^verbatim>\<open>_table\<close> and \<^verbatim>\<open>_options\<close>. The table is injected with
  \<^verbatim>\<open>@Optional()\<close>: \<open>None\<close> is the \<^verbatim>\<open>null\<close> the injector gives when no table
  encloses the column. The three view children are resolved by static queries before
  any input is set.
\<close>

record CdkTextColumn =
  priv_name :: "string js"
  headerText :: "string js"
  dataAccessor :: "accessor js"
  justify :: justification
  columnDef :: CdkColumnDef
  cell :: "CdkCellDef js"
  headerCell :: "CdkHeaderCellDef js"
  priv_table :: "CdkTable option"
  priv_options :: TextColumnOptions

text \<open>
  The constructor: \<^verbatim>\<open>this._options = _options || {}\<close>. The view children are what the
  static queries found; no input has been set yet.
\<close>

definition new_CdkTextColumn ::
  "CdkColumnDef \<Rightarrow> CdkCellDef js \<Rightarrow> CdkHeaderCellDef js \<Rightarrow>
     CdkTable option \<Rightarrow> TextColumnOptions option \<Rightarrow> CdkTextColumn" where
  "new_CdkTextColumn cd ce hc tbl opts =
     \<lparr>priv_name = JsUndefined, headerText = JsUndefined, dataAccessor = JsUndefined,
      justify = Start, columnDef = cd, cell = ce, headerCell = hc,
      priv_table = tbl,
      priv_options = (case opts of None \<Rightarrow> empty_options | Some v \<Rightarrow> v)\<rparr>"

text \<open>The accessors of the \<^verbatim>\<open>name\<close> property.\<close>

definition get_name :: "CdkTextColumn \<Rightarrow> string js" where
  "get_name c = priv_name c"

definition set_name :: "CdkTextColumn \<Rightarrow> string js \<Rightarrow> CdkTextColumn" where
  "set_name c name =
     (let c1 = c\<lparr>priv_name := name\<rparr>
      in c1\<lparr>columnDef := (columnDef c1)\<lparr>def_name := name\<rparr>\<rparr>)"

text \<open>
  \<^verbatim>\<open>_createDefaultHeaderText\<close>. \<^verbatim>\<open>this._options\<close> is an object since the
  constructor ran, so the first conjunct of the test holds. \<^verbatim>\<open>this.name[0]\<close> throws a
  \<^verbatim>\<open>TypeError\<close> on \<^verbatim>\<open>undefined\<close> and \<^verbatim>\<open>null\<close>, and is \<^verbatim>\<open>undefined\<close> on the
  empty string, where the call of \<^verbatim>\<open>toUpperCase\<close> throws it.
\<close>

definition createDefaultHeaderText :: "CdkTextColumn \<Rightarrow> error + string" where
  "createDefaultHeaderText c =
     (case defaultHeaderTextTransform (priv_options c) of
        Some f \<Rightarrow> Inr (f (get_name c))
      | None \<Rightarrow>
          (case get_name c of
             Defined s \<Rightarrow>
               (case s of
                  [] \<Rightarrow> Inl TypeError
                | ch # _ \<Rightarrow> Inr (toUpperCase [ch] @ slice s 1))
           | _ \<Rightarrow> Inl TypeError))"

text \<open>The arrow function \<^verbatim>\<open>(data, name) => (data as any)[name]\<close>.\<close>

definition property_accessor :: accessor where
  "property_accessor data name = get_property data name"

text \<open>The three steps of \<^verbatim>\<open>ngOnInit\<close>, in the order of the source.\<close>

definition init_headerText :: "CdkTextColumn \<Rightarrow> error + CdkTextColumn" where
  "init_headerText c =
     (if headerText c = JsUndefined
      then (case createDefaultHeaderText c of
              Inl e \<Rightarrow> Inl e
            | Inr h \<Rightarrow> Inr (c\<lparr>headerText := Defined h\<rparr>))
      else Inr c)"

definition init_dataAccessor :: "CdkTextColumn \<Rightarrow> CdkTextColumn" where
  "init_dataAccessor c =
     (if falsy (dataAccessor c)
      then c\<lparr>dataAccessor :=
             Defined (case defaultDataAccessor (priv_options c) of
                        Some a \<Rightarrow> a
                      | None \<Rightarrow> property_accessor)\<rparr>
      else c)"

definition register_column :: "CdkTextColumn \<Rightarrow> error option \<times> CdkTextColumn" where
  "register_column c =
     (case priv_table c of
        Some t \<Rightarrow>
          (let c1 = c\<lparr>columnDef := (columnDef c)\<lparr>def_cell := cell c\<rparr>\<rparr>;
               c2 = c1\<lparr>columnDef := (columnDef c1)\<lparr>def_headerCell := headerCell c1\<rparr>\<rparr>
           in (None, c2\<lparr>priv_table := Some (addColumnDef t (columnDef c2))\<rparr>))
      | None \<Rightarrow> (Some getTableTextColumnMissingParentTableError, c))"

definition ngOnInit :: "CdkTextColumn \<Rightarrow> error option \<times> CdkTextColumn" where
  "ngOnInit c =
     (case init_headerText c of
        Inl e \<Rightarrow> (Some e, c)
      | Inr c1 \<Rightarrow> register_column (init_dataAccessor c1))"

definition ngOnDestroy :: "CdkTextColumn \<Rightarrow> error option \<times> CdkTextColumn" where
  "ngOnDestroy c =
     (case priv_table c of
        Some t \<Rightarrow> (None, c\<lparr>priv_table := Some (removeColumnDef t (columnDef c))\<rparr>)
      | None \<Rightarrow> (None, c))"

text \<open>The cell binding of the template: \<^verbatim>\<open>{{dataAccessor(data, name)}}\<close>.\<close>

definition cell_text :: "CdkTextColumn \<Rightarrow> row \<Rightarrow> error + jsval" where
  "cell_text c data =
     (case dataAccessor c of
        Defined a \<Rightarrow> Inr (a data (get_name c))
      | _ \<Rightarrow> Inl TypeError)"

subsection \<open>Example components\<close>

text \<open>A column definition as the template creates it, before any name is assigned.\<close>

definition fresh_columnDef :: CdkColumnDef where
  "fresh_columnDef =
     \<lparr>def_ref = 0, def_name = JsUndefined, def_cell = JsUndefined,
      def_headerCell = JsUndefined\<rparr>"

text \<open>A component right after construction, with its three view children resolved.\<close>

definition example_column :: "CdkTable option \<Rightarrow> TextColumnOptions option \<Rightarrow> CdkTextColumn" where
  "example_column tbl opts =
     new_CdkTextColumn fresh_columnDef (Defined (CellDef 0)) (Defined (HeaderCellDef 0)) tbl opts"

text \<open>The same component after the \<^verbatim>\<open>name\<close> input has been bound.\<close>

definition named_column ::
  "string \<Rightarrow> CdkTable option \<Rightarrow> TextColumnOptions option \<Rightarrow> CdkTextColumn" where
  "named_column n tbl opts = set_name (example_column tbl opts) (Defined n)"

definition empty_table :: CdkTable where
  "empty_table = \<lparr>registry = []\<rparr>"

text \<open>A table that already shows a column \<^verbatim>\<open>id\<close>, declared by someone else.\<close>

definition id_def :: CdkColumnDef where
  "id_def = \<lparr>def_ref = 7, def_name = Defined ''id'', def_cell = Defined (CellDef 7),
              def_headerCell = Defined (HeaderCellDef 7)\<rparr>"

definition id_table :: CdkTable where
  "id_table = \<lparr>registry = [id_def]\<rparr>"

text \<open>A column \<^verbatim>\<open>id\<close> whose \<^verbatim>\<open>ngOnInit\<close> has run in an empty table.\<close>

definition registered_column :: CdkTextColumn where
  "registered_column = snd (ngOnInit (named_column ''id'' (Some empty_table) None))"

text \<open>The transform \<^verbatim>\<open>n => n.toUpperCase()\<close>, on a name that is a string.\<close>

definition shout :: "string js \<Rightarrow> string" where
  "shout n = (case n of Defined s \<Rightarrow> toUpperCase s | _ \<Rightarrow> [])"

definition shouting_options :: TextColumnOptions where
  "shouting_options = \<lparr>defaultHeaderTextTransform = Some shout, defaultDataAccessor = None\<rparr>"

text \<open>The row \<^verbatim>\<open>{ id: 42, name: "Ann" }\<close>.\<close>

definition ann :: row where
  "ann = [''id'' \<mapsto> JNum 42, ''name'' \<mapsto> JStr ''Ann'']"

section \<open>Properties\<close>

subsection \<open>Auxiliary facts\<close>

lemmas column_simps =
  named_column_def example_column_def new_CdkTextColumn_def fresh_columnDef_def
  empty_options_def set_name_def Let_def

lemmas hook_simps =
  ngOnInit_def init_headerText_def init_dataAccessor_def register_column_def
  createDefaultHeaderText_def getTableTextColumnMissingParentTableError_def
  get_name_def slice_def toUpperCase_def

lemma upper_char_u: "upper_char CHR ''u'' = CHR ''U''"
  by code_simp

lemma toUpperCase_age: "toUpperCase ''age'' = ''AGE''"
  by code_simp

lemma property_accessor_eq: "property_accessor = (\<lambda>data name. get_property data name)"
  by (intro ext) (simp add: property_accessor_def)

text \<open>Removing a definition undoes the insertion of one that was not registered.\<close>

lemma remove_absent_def:
  "def_ref d \<notin> def_ref ` set xs \<Longrightarrow> filter (\<lambda>x. def_ref x \<noteq> def_ref d) xs = xs"
  by (induction xs) auto

lemma remove_insert_def:
  "def_ref d \<notin> def_ref ` set xs \<Longrightarrow>
   filter (\<lambda>x. def_ref x \<noteq> def_ref d) (insert_def d xs) = xs"
  by (simp add: insert_def_def remove_absent_def)

lemma remove_add_table:
  "def_ref d \<notin> def_ref ` set (registry t) \<Longrightarrow> removeColumnDef (addColumnDef t d) d = t"
  by (simp add: removeColumnDef_def addColumnDef_def remove_insert_def)

lemma remove_absent_table:
  "def_ref d \<notin> def_ref ` set (registry t) \<Longrightarrow> removeColumnDef t d = t"
  by (simp add: removeColumnDef_def remove_absent_def)

text \<open>The two ways through \<^verbatim>\<open>ngOnInit\<close>: the header step throws, or the hook goes on.\<close>

lemma ngOnInit_fault:
  "init_headerText c = Inl e \<Longrightarrow> e = TypeError \<and> ngOnInit c = (Some TypeError, c)"
  by (auto simp: ngOnInit_def init_headerText_def createDefaultHeaderText_def
           split: if_splits sum.splits option.splits js.splits list.splits)

lemma ngOnInit_pass:
  "init_headerText c = Inr c1 \<Longrightarrow> ngOnInit c = register_column (init_dataAccessor c1)"
  by (simp add: ngOnInit_def)

lemma init_headerText_frame:
  "init_headerText c = Inr c1 \<Longrightarrow> c1 = c\<lparr>headerText := headerText c1\<rparr>"
  by (auto simp: init_headerText_def split: if_splits sum.splits)

subsection \<open>Initialisation without a host table\<close>




subsection \<open>The name property\<close>

text \<open>
  C2: for every string \<open>v\<close>, assigning \<open>v\<close> to \<^verbatim>\<open>name\<close> stores \<open>v\<close> in the component
  and in the owned column definition at once: reading \<^verbatim>\<open>name\<close> and reading
  \<^verbatim>\<open>columnDef.name\<close> right after the assignment both give \<open>v\<close>.
\<close>

theorem name_setter_sync:
  "get_name (set_name c (Defined v)) = Defined v \<and>
   def_name (columnDef (set_name c (Defined v))) = Defined v"
  by (simp add: get_name_def set_name_def Let_def)

theorem name_setter_sync_witness:
  "get_name (set_name (example_column None None) (Defined ''id'')) = Defined ''id'' \<and>
   def_name (columnDef (set_name (example_column None None) (Defined ''id''))) = Defined ''id''"
  using name_setter_sync [of "example_column None None" "''id''"] by simp

subsection \<open>Defaults\<close>

text \<open>
  C3: when \<^verbatim>\<open>headerText\<close> is undefined as \<^verbatim>\<open>ngOnInit\<close> starts, the header text
  afterwards is the configured transform applied to the name, if the options give one,
  and otherwise the name with its first character upper-cased and the rest as it was;
  a header text that was set is left as it is. The name \<^verbatim>\<open>userId\<close> gives
  \<^verbatim>\<open>UserId\<close>.
\<close>

theorem default_header_text:
  "(headerText c = JsUndefined \<and> defaultHeaderTextTransform (priv_options c) = Some f
      \<longrightarrow> headerText (snd (ngOnInit c)) = Defined (f (get_name c))) \<and>
   (headerText c = JsUndefined \<and> defaultHeaderTextTransform (priv_options c) = None \<and>
    get_name c = Defined (ch # rest)
      \<longrightarrow> headerText (snd (ngOnInit c)) = Defined (toUpperCase [ch] @ rest)) \<and>
   (headerText c \<noteq> JsUndefined \<longrightarrow> headerText (snd (ngOnInit c)) = headerText c)"
  by (auto simp: hook_simps split: option.splits js.splits list.splits sum.splits)

theorem default_header_text_witness:
  "headerText (snd (ngOnInit (named_column ''age'' None (Some shouting_options))))
     = Defined ''AGE'' \<and>
   headerText (snd (ngOnInit (named_column ''userId'' None None))) = Defined ''UserId'' \<and>
   headerText (snd (ngOnInit ((named_column ''userId'' None None)\<lparr>headerText := Defined ''User''\<rparr>)))
     = Defined ''User''"
proof -
  let ?a = "named_column ''age'' None (Some shouting_options)"
  let ?u = "named_column ''userId'' None None"
  let ?h = "?u\<lparr>headerText := Defined ''User''\<rparr>"
  have a: "headerText ?a = JsUndefined \<and> defaultHeaderTextTransform (priv_options ?a) = Some shout"
    by (simp add: column_simps shouting_options_def)
  have u: "headerText ?u = JsUndefined \<and> defaultHeaderTextTransform (priv_options ?u) = None \<and>
           get_name ?u = Defined (CHR ''u'' # ''serId'')"
    by (simp add: column_simps get_name_def)
  have h: "headerText ?h \<noteq> JsUndefined"
    by simp
  have "headerText (snd (ngOnInit ?a)) = Defined (shout (get_name ?a))"
    using default_header_text [of ?a shout] a by blast
  moreover have "shout (get_name ?a) = ''AGE''"
    by (simp add: column_simps get_name_def shout_def toUpperCase_age)
  moreover have "headerText (snd (ngOnInit ?u)) = Defined (toUpperCase [CHR ''u''] @ ''serId'')"
    using default_header_text [of ?u _ "CHR ''u''" "''serId''"] u by blast
  moreover have "headerText (snd (ngOnInit ?h)) = headerText ?h"
    using default_header_text [of ?h] h by blast
  ultimately show ?thesis
    by (simp add: toUpperCase_def upper_char_u)
qed

text \<open>
  C4: when \<^verbatim>\<open>dataAccessor\<close> is unset as \<^verbatim>\<open>ngOnInit\<close> starts and the hook gets past
  the header text, the accessor afterwards is the configured default accessor, if the
  options give one, and otherwise the function that reads the property named by the
  column off the row. With no accessor configured, the row
  \<^verbatim>\<open>{ id: 42, name: "Ann" }\<close> and the column \<^verbatim>\<open>id\<close>, the cell shows 42.
\<close>

theorem default_data_accessor:
  assumes "falsy (dataAccessor c)" and "fst (ngOnInit c) \<noteq> Some TypeError"
  shows "(defaultDataAccessor (priv_options c) = Some a
            \<longrightarrow> dataAccessor (snd (ngOnInit c)) = Defined a) \<and>
         (defaultDataAccessor (priv_options c) = None
            \<longrightarrow> dataAccessor (snd (ngOnInit c)) = Defined (\<lambda>data name. get_property data name))"
  using assms
  by (auto simp: hook_simps property_accessor_eq
           split: option.splits sum.splits if_splits js.splits list.splits)

theorem default_data_accessor_witness:
  "falsy (dataAccessor (named_column ''id'' (Some empty_table) None)) \<and>
   fst (ngOnInit (named_column ''id'' (Some empty_table) None)) = None \<and>
   dataAccessor (snd (ngOnInit (named_column ''id'' (Some empty_table) None)))
     = Defined (\<lambda>data name. get_property data name) \<and>
   cell_text (snd (ngOnInit (named_column ''id'' (Some empty_table) None))) ann = Inr (JNum 42)"
proof -
  let ?c = "named_column ''id'' (Some empty_table) None"
  have f: "falsy (dataAccessor ?c)"
    by (simp add: column_simps)
  have e: "fst (ngOnInit ?c) = None"
    by (simp add: column_simps hook_simps)
  have o: "defaultDataAccessor (priv_options ?c) = None"
    by (simp add: column_simps)
  have n: "get_name (snd (ngOnInit ?c)) = Defined ''id''"
    by (simp add: column_simps hook_simps)
  have d: "dataAccessor (snd (ngOnInit ?c)) = Defined (\<lambda>data name. get_property data name)"
    using default_data_accessor [of ?c] f e o by simp
  have "cell_text (snd (ngOnInit ?c)) ann = Inr (JNum 42)"
    by (simp add: cell_text_def d n get_property_def ann_def)
  with f e d show ?thesis by simp
qed

subsection \<open>Registration and teardown\<close>

text \<open>
  C5: for every state \<open>R\<close> of the host table before the registration, that is, a state
  in which the component's own column definition is not registered yet, \<^verbatim>\<open>ngOnInit\<close>
  followed by \<^verbatim>\<open>ngOnDestroy\<close> leaves the table exactly in the state \<open>R\<close>: the same
  entries in the same order, also when \<open>R\<close> holds another definition of the same name.
\<close>

theorem init_destroy_round_trip:
  assumes "priv_table c = Some t"
    and "def_ref (columnDef c) \<notin> def_ref ` set (registry t)"
  shows "priv_table (snd (ngOnDestroy (snd (ngOnInit c)))) = Some t"
proof (cases "init_headerText c")
  case (Inl e)
  then have "ngOnInit c = (Some TypeError, c)"
    using ngOnInit_fault by blast
  with assms show ?thesis
    by (simp add: ngOnDestroy_def remove_absent_table)
next
  case (Inr c1)
  let ?c2 = "init_dataAccessor c1"
  have "c1 = c\<lparr>headerText := headerText c1\<rparr>"
    using Inr by (rule init_headerText_frame)
  then have c1: "priv_table c1 = Some t" "def_ref (columnDef c1) = def_ref (columnDef c)"
    using assms(1)
    by (metis CdkTextColumn.select_convs CdkTextColumn.surjective CdkTextColumn.update_convs)+
  have c2: "priv_table ?c2 = Some t" "def_ref (columnDef ?c2) = def_ref (columnDef c)"
    using c1 by (simp_all add: init_dataAccessor_def)
  have "ngOnInit c = register_column ?c2"
    using Inr by (rule ngOnInit_pass)
  with c2 assms(2) show ?thesis
    by (simp add: register_column_def ngOnDestroy_def Let_def remove_add_table)
qed

theorem init_destroy_round_trip_witness:
  "priv_table (named_column ''id'' (Some id_table) None) = Some id_table \<and>
   def_ref (columnDef (named_column ''id'' (Some id_table) None))
     \<notin> def_ref ` set (registry id_table) \<and>
   priv_table (snd (ngOnInit (named_column ''id'' (Some id_table) None)))
     = Some \<lparr>registry =
         [id_def, columnDef (snd (ngOnInit (named_column ''id'' (Some id_table) None)))]\<rparr> \<and>
   def_name (columnDef (snd (ngOnInit (named_column ''id'' (Some id_table) None))))
     = def_name id_def \<and>
   priv_table (snd (ngOnDestroy (snd (ngOnInit (named_column ''id'' (Some id_table) None)))))
     = Some id_table"
proof -
  let ?c = "named_column ''id'' (Some id_table) None"
  have t: "priv_table ?c = Some id_table"
    by (simp add: column_simps)
  have n: "def_ref (columnDef ?c) \<notin> def_ref ` set (registry id_table)"
    by (simp add: column_simps id_table_def id_def_def)
  have r: "priv_table (snd (ngOnInit ?c))
             = Some \<lparr>registry = [id_def, columnDef (snd (ngOnInit ?c))]\<rparr>"
    by (simp add: column_simps hook_simps addColumnDef_def insert_def_def id_table_def id_def_def)
  have d: "def_name (columnDef (snd (ngOnInit ?c))) = def_name id_def"
    by (simp add: column_simps hook_simps id_def_def)
  from init_destroy_round_trip [OF t n] t n r d show ?thesis by simp
qed

text \<open>
  C6: on teardown a component with a host table calls \<^verbatim>\<open>removeColumnDef\<close> on it with
  the owned column definition and changes nothing else; a component with no host table
  is left exactly as it was. Neither case throws.
\<close>

theorem destroy_deregisters:
  "(priv_table c = Some t \<longrightarrow>
      ngOnDestroy c = (None, c\<lparr>priv_table := Some (removeColumnDef t (columnDef c))\<rparr>)) \<and>
   (priv_table c = None \<longrightarrow> ngOnDestroy c = (None, c))"
  by (simp add: ngOnDestroy_def)

theorem destroy_deregisters_witness:
  "priv_table registered_column = Some \<lparr>registry = [columnDef registered_column]\<rparr> \<and>
   ngOnDestroy registered_column = (None, registered_column\<lparr>priv_table := Some empty_table\<rparr>) \<and>
   priv_table (named_column ''id'' None None) = None \<and>
   ngOnDestroy (named_column ''id'' None None) = (None, named_column ''id'' None None)"
proof -
  let ?t = "\<lparr>registry = [columnDef registered_column]\<rparr>"
  have t: "priv_table registered_column = Some ?t"
    by (simp add: registered_column_def column_simps hook_simps addColumnDef_def insert_def_def
          empty_table_def)
  have r: "removeColumnDef ?t (columnDef registered_column) = empty_table"
    by (simp add: removeColumnDef_def empty_table_def)
  have n: "priv_table (named_column ''id'' None None) = None"
    by (simp add: column_simps)
  from destroy_deregisters [of registered_column ?t] t r
  have "ngOnDestroy registered_column = (None, registered_column\<lparr>priv_table := Some empty_table\<rparr>)"
    by simp
  moreover from destroy_deregisters [of "named_column ''id'' None None"] n
  have "ngOnDestroy (named_column ''id'' None None) = (None, named_column ''id'' None None)"
    by simp
  ultimately show ?thesis using t n by simp
qed

subsection \<open>Options that are not provided\<close>

text \<open>
  C7: a component constructed with no options object is the component constructed with
  the empty options object: neither default is configured, and whatever inputs are
  assigned afterwards, \<^verbatim>\<open>ngOnInit\<close> does the same on both.
\<close>

theorem absent_options_are_empty:
  "new_CdkTextColumn cd ce hc tbl None = new_CdkTextColumn cd ce hc tbl (Some empty_options) \<and>
   defaultHeaderTextTransform (priv_options (new_CdkTextColumn cd ce hc tbl None)) = None \<and>
   defaultDataAccessor (priv_options (new_CdkTextColumn cd ce hc tbl None)) = None \<and>
   ngOnInit (inputs (new_CdkTextColumn cd ce hc tbl None))
     = ngOnInit (inputs (new_CdkTextColumn cd ce hc tbl (Some empty_options)))"
  by (simp add: new_CdkTextColumn_def empty_options_def)

theorem absent_options_are_empty_witness:
  "example_column None None = example_column None (Some empty_options) \<and>
   ngOnInit (named_column ''userId'' None None)
     = ngOnInit (named_column ''userId'' None (Some empty_options))"
  using absent_options_are_empty
    [of fresh_columnDef "Defined (CellDef 0)" "Defined (HeaderCellDef 0)" None
        "\<lambda>c. set_name c (Defined ''userId'')"]
  by (simp add: named_column_def example_column_def)

subsection \<open>Faults and partial effects of the initialisation\<close>

text \<open>
  C8: with no header transform configured, the default header text exists exactly for
  a name that is a non-empty string. When the header text is unset and the name is the
  empty string or was never assigned, \<^verbatim>\<open>_createDefaultHeaderText\<close> throws a
  \<^verbatim>\<open>TypeError\<close>, and \<^verbatim>\<open>ngOnInit\<close> ends with it, leaving the component as it was:
  no header text is produced.
\<close>

theorem empty_name_faults:
  assumes "defaultHeaderTextTransform (priv_options c) = None"
  shows "(get_name c = Defined [] \<or> get_name c = JsUndefined
            \<longrightarrow> createDefaultHeaderText c = Inl TypeError) \<and>
         (headerText c = JsUndefined \<and> (get_name c = Defined [] \<or> get_name c = JsUndefined)
            \<longrightarrow> ngOnInit c = (Some TypeError, c)) \<and>
         ((\<exists>h. createDefaultHeaderText c = Inr h) \<longleftrightarrow> (\<exists>ch rest. get_name c = Defined (ch # rest)))"
  using assms
  by (auto simp: hook_simps split: js.splits list.splits)

theorem empty_name_faults_witness:
  "defaultHeaderTextTransform (priv_options (named_column [] (Some empty_table) None)) = None \<and>
   get_name (named_column [] (Some empty_table) None) = Defined [] \<and>
   headerText (named_column [] (Some empty_table) None) = JsUndefined \<and>
   createDefaultHeaderText (named_column [] (Some empty_table) None) = Inl TypeError \<and>
   ngOnInit (named_column [] (Some empty_table) None)
     = (Some TypeError, named_column [] (Some empty_table) None) \<and>
   get_name (example_column (Some empty_table) None) = JsUndefined \<and>
   ngOnInit (example_column (Some empty_table) None)
     = (Some TypeError, example_column (Some empty_table) None)"
proof -
  let ?e = "named_column [] (Some empty_table) None"
  let ?u = "example_column (Some empty_table) None"
  have e: "defaultHeaderTextTransform (priv_options ?e) = None"
          "get_name ?e = Defined []" "headerText ?e = JsUndefined"
    by (simp_all add: column_simps get_name_def)
  have u: "defaultHeaderTextTransform (priv_options ?u) = None"
          "get_name ?u = JsUndefined" "headerText ?u = JsUndefined"
    by (simp_all add: column_simps get_name_def)
  from empty_name_faults [OF e(1)] e(2,3)
  have "createDefaultHeaderText ?e = Inl TypeError" "ngOnInit ?e = (Some TypeError, ?e)"
    by simp_all
  moreover from empty_name_faults [OF u(1)] u(2,3)
  have "ngOnInit ?u = (Some TypeError, ?u)"
    by simp
  ultimately show ?thesis using e u by simp
qed

text \<open>
  C9: when \<^verbatim>\<open>ngOnInit\<close> throws the missing parent table error, the defaults have been
  assigned already: the component then holds a header text that is not undefined (the
  default, where it was unset) and a data accessor that is truthy (the default, where
  it was falsy), so where a default was due the component is not as it was before the
  call. No table is attached, so no registry was touched.
\<close>

theorem failure_keeps_defaults:
  assumes "fst (ngOnInit c) = Some MissingParentTableError"
  shows "priv_table (snd (ngOnInit c)) = None \<and>
         (headerText c = JsUndefined \<longrightarrow>
            (\<exists>h. createDefaultHeaderText c = Inr h \<and> headerText (snd (ngOnInit c)) = Defined h)) \<and>
         (falsy (dataAccessor c) \<longrightarrow>
            dataAccessor (snd (ngOnInit c)) =
              Defined (case defaultDataAccessor (priv_options c) of
                         Some a \<Rightarrow> a | None \<Rightarrow> property_accessor)) \<and>
         headerText (snd (ngOnInit c)) \<noteq> JsUndefined \<and>
         \<not> falsy (dataAccessor (snd (ngOnInit c))) \<and>
         (headerText c = JsUndefined \<or> falsy (dataAccessor c) \<longrightarrow> snd (ngOnInit c) \<noteq> c)"
proof (cases "init_headerText c")
  case (Inl e)
  then have "ngOnInit c = (Some TypeError, c)"
    using ngOnInit_fault by blast
  with assms show ?thesis by simp
next
  case (Inr c1)
  let ?c2 = "init_dataAccessor c1"
  have run: "ngOnInit c = register_column ?c2"
    using Inr by (rule ngOnInit_pass)
  have t: "priv_table ?c2 = None"
  proof (cases "priv_table ?c2")
    case None
    then show ?thesis .
  next
    case (Some t)
    with run assms show ?thesis
      by (simp add: register_column_def Let_def)
  qed
  then have res: "snd (ngOnInit c) = ?c2"
    using run by (simp add: register_column_def)
  have h: "headerText ?c2 = headerText c1" and o: "priv_options c1 = priv_options c"
    and d: "dataAccessor c1 = dataAccessor c"
    using Inr by (auto simp: init_dataAccessor_def init_headerText_def split: if_splits sum.splits)
  have h1: "headerText c1 \<noteq> JsUndefined"
    using Inr by (auto simp: init_headerText_def split: if_splits sum.splits)
  have h2: "headerText c = JsUndefined \<longrightarrow>
            (\<exists>h. createDefaultHeaderText c = Inr h \<and> headerText c1 = Defined h)"
    using Inr by (auto simp: init_headerText_def split: if_splits sum.splits)
  have d1: "\<not> falsy (dataAccessor ?c2)"
    by (simp add: init_dataAccessor_def)
  have d2: "falsy (dataAccessor c) \<longrightarrow>
            dataAccessor ?c2 = Defined (case defaultDataAccessor (priv_options c) of
                                          Some a \<Rightarrow> a | None \<Rightarrow> property_accessor)"
    using d o by (simp add: init_dataAccessor_def)
  have ne: "headerText c = JsUndefined \<or> falsy (dataAccessor c) \<longrightarrow> ?c2 \<noteq> c"
    using h h1 d1 by auto
  from t h h1 h2 d1 d2 ne show ?thesis
    unfolding res by simp
qed

theorem failure_keeps_defaults_witness:
  "fst (ngOnInit (named_column ''userId'' None None)) = Some MissingParentTableError \<and>
   headerText (named_column ''userId'' None None) = JsUndefined \<and>
   falsy (dataAccessor (named_column ''userId'' None None)) \<and>
   headerText (snd (ngOnInit (named_column ''userId'' None None))) = Defined ''UserId'' \<and>
   dataAccessor (snd (ngOnInit (named_column ''userId'' None None))) = Defined property_accessor \<and>
   snd (ngOnInit (named_column ''userId'' None None)) \<noteq> named_column ''userId'' None None"
proof -
  let ?c = "named_column ''userId'' None None"
  have e: "fst (ngOnInit ?c) = Some MissingParentTableError"
    by (simp add: column_simps hook_simps)
  have p: "headerText ?c = JsUndefined" "falsy (dataAccessor ?c)"
          "defaultDataAccessor (priv_options ?c) = None"
    by (simp_all add: column_simps)
  have c: "createDefaultHeaderText ?c = Inr ''UserId''"
    by (simp add: column_simps hook_simps upper_char_u)
  from failure_keeps_defaults [OF e] p c
  have "headerText (snd (ngOnInit ?c)) = Defined ''UserId''"
       "dataAccessor (snd (ngOnInit ?c)) = Defined property_accessor"
       "snd (ngOnInit ?c) \<noteq> ?c"
    by simp_all
  with e p show ?thesis by simp
qed

text \<open>
  C10: the two defaulting tests differ. The header text is replaced only when it is
  exactly undefined, so an empty string (and \<^verbatim>\<open>null\<close>) assigned to it stays; the data
  accessor is replaced whenever it is falsy, so a \<^verbatim>\<open>null\<close> accessor gives way to the
  default as soon as the hook gets past the header text, and a function assigned to it
  stays.
\<close>

theorem defaulting_tests_differ:
  "(headerText c \<noteq> JsUndefined \<longrightarrow> headerText (snd (ngOnInit c)) = headerText c) \<and>
   (headerText c = Defined [] \<longrightarrow> headerText (snd (ngOnInit c)) = Defined []) \<and>
   (falsy (dataAccessor c) \<and> fst (ngOnInit c) \<noteq> Some TypeError \<longrightarrow>
      dataAccessor (snd (ngOnInit c)) =
        Defined (case defaultDataAccessor (priv_options c) of
                   Some a \<Rightarrow> a | None \<Rightarrow> property_accessor)) \<and>
   (dataAccessor c = JsNull \<and> fst (ngOnInit c) \<noteq> Some TypeError \<longrightarrow>
      dataAccessor (snd (ngOnInit c)) \<noteq> JsNull) \<and>
   (\<not> falsy (dataAccessor c) \<longrightarrow> dataAccessor (snd (ngOnInit c)) = dataAccessor c)"
  by (auto simp: hook_simps split: option.splits js.splits list.splits sum.splits)

theorem defaulting_tests_differ_witness:
  "headerText (snd (ngOnInit ((named_column ''id'' (Some empty_table) None)
      \<lparr>headerText := Defined [], dataAccessor := JsNull\<rparr>))) = Defined [] \<and>
   fst (ngOnInit ((named_column ''id'' (Some empty_table) None)
      \<lparr>headerText := Defined [], dataAccessor := JsNull\<rparr>)) = None \<and>
   dataAccessor (snd (ngOnInit ((named_column ''id'' (Some empty_table) None)
      \<lparr>headerText := Defined [], dataAccessor := JsNull\<rparr>))) = Defined property_accessor \<and>
   headerText (snd (ngOnInit ((named_column ''id'' (Some empty_table) None)
      \<lparr>headerText := JsNull, dataAccessor := Defined (\<lambda>data name. JStr ''x'')\<rparr>))) = JsNull \<and>
   dataAccessor (snd (ngOnInit ((named_column ''id'' (Some empty_table) None)
      \<lparr>headerText := JsNull, dataAccessor := Defined (\<lambda>data name. JStr ''x'')\<rparr>)))
     = Defined (\<lambda>data name. JStr ''x'')"
proof -
  let ?c = "(named_column ''id'' (Some empty_table) None)
              \<lparr>headerText := Defined [], dataAccessor := JsNull\<rparr>"
  let ?k = "(named_column ''id'' (Some empty_table) None)
              \<lparr>headerText := JsNull, dataAccessor := Defined (\<lambda>data name. JStr ''x'')\<rparr>"
  have c: "headerText ?c = Defined []" "dataAccessor ?c = JsNull" "falsy (dataAccessor ?c)"
          "defaultDataAccessor (priv_options ?c) = None"
    by (simp_all add: column_simps)
  have e: "fst (ngOnInit ?c) = None"
    by (simp add: column_simps hook_simps)
  have k: "headerText ?k = JsNull" "dataAccessor ?k = Defined (\<lambda>data name. JStr ''x'')"
    by simp_all
  from defaulting_tests_differ [of ?c] c e
  have "headerText (snd (ngOnInit ?c)) = Defined []"
       "dataAccessor (snd (ngOnInit ?c)) = Defined property_accessor"
    by simp_all
  moreover from defaulting_tests_differ [of ?k] k
  have "headerText (snd (ngOnInit ?k)) = JsNull"
       "dataAccessor (snd (ngOnInit ?k)) = Defined (\<lambda>data name. JStr ''x'')"
    by simp_all
  ultimately show ?thesis using e by simp
qed

end
